theory Spec2Isabelle
  imports Complex_Main "HOL-Library.Char_ord" "HOL-Library.List_Lexorder"
    "HOL-Library.Product_Lexorder" "HOL-Library.Sublist"
begin

section \<open>Personal finance tracker: data model\<close>

text \<open>
  The program is one Python class, \<^verbatim>\<open>FinanceTrackerApp\<close> (file \<^verbatim>\<open>finance_tracker.py\<close>),
  whose methods read and write the widgets of a Tk window, one pandas DataFrame
  (\<^verbatim>\<open>self.data\<close>) and one CSV file.  The embedding keeps these as the fields of a state
  record and turns every method into a function on that record.

  Values of a DataFrame cell.  A Python float is a finite value, an infinity or NaN; the
  finite values carry their exact rational value (rounding to 53 bits is not modelled, the
  sign and the special values, which decide the control flow, are).  NaN is also pandas'
  marker of a missing cell.
\<close>

datatype pyfloat = Fin rat | PInf | NInf | NaN

datatype cell =
    Str string
  | Num pyfloat
  | Timestamp nat nat nat nat nat nat   \<comment> \<open>year month day hour minute second\<close>
  | Period nat nat                      \<comment> \<open>year month, the result of \<^verbatim>\<open>dt.to_period('M')\<close>\<close>

text \<open>A DataFrame: its column labels and its rows, each row one cell per column.\<close>

record dataframe =
  columns :: "string list"
  rows :: "cell list list"

datatype error =
    KeyError string
  | ValueError
  | TypeError

text \<open>The module's configuration constants.\<close>

definition COLUMNS :: "string list" where
  "COLUMNS = [''date'', ''type'', ''category'', ''amount'', ''description'']"

definition CATEGORIES :: "(string \<times> string list) list" where
  "CATEGORIES =
    [(''Expense'', [''Food'', ''Transport'', ''Shopping'', ''Bills'', ''Entertainment'',
                   ''Health'', ''Other Expense'']),
     (''Income'', [''Salary'', ''Bonus'', ''Investment'', ''Gift'', ''Other Income''])]"

text \<open>\<^verbatim>\<open>CATEGORIES.get(current_type, [])\<close>\<close>

definition CATEGORIES_get :: "string \<Rightarrow> string list" where
  "CATEGORIES_get t = (case map_of CATEGORIES t of Some cs \<Rightarrow> cs | None \<Rightarrow> [])"

subsection \<open>DataFrame operations used by the program\<close>

text \<open>\<^verbatim>\<open>pd.DataFrame(columns=COLUMNS)\<close>: no rows.\<close>

definition DataFrame_empty :: "string list \<Rightarrow> dataframe" where
  "DataFrame_empty cols = \<lparr>columns = cols, rows = []\<rparr>"

text \<open>\<^verbatim>\<open>df.empty\<close>: some axis has length zero.\<close>

definition df_empty :: "dataframe \<Rightarrow> bool" where
  "df_empty df \<longleftrightarrow> columns df = [] \<or> rows df = []"

text \<open>Position of a label among the columns (the first one, labels being distinct).\<close>

fun index_of :: "string \<Rightarrow> string list \<Rightarrow> nat option" where
  "index_of c [] = None"
| "index_of c (x # xs) =
     (if x = c then Some 0 else (case index_of c xs of None \<Rightarrow> None | Some i \<Rightarrow> Some (Suc i)))"

text \<open>The cell of a row at a position; a row too short for the position reads as missing.\<close>

definition cell_at :: "cell list \<Rightarrow> nat \<Rightarrow> cell" where
  "cell_at r i = (if i < length r then r ! i else Num NaN)"

text \<open>The cell of a row under a label; \<open>field\<close> is used in statements only.\<close>

definition field :: "dataframe \<Rightarrow> string \<Rightarrow> cell list \<Rightarrow> cell" where
  "field df c r = (case index_of c (columns df) of Some i \<Rightarrow> cell_at r i | None \<Rightarrow> Num NaN)"

text \<open>\<^verbatim>\<open>df[df[c] == v]\<close> for a string \<open>v\<close>: \<^verbatim>\<open>df[c]\<close> raises KeyError when the label is
  absent; the comparison is true exactly on the cells that are the string \<open>v\<close>; the rows are
  kept in their order.\<close>

definition select_eq :: "dataframe \<Rightarrow> string \<Rightarrow> string \<Rightarrow> error + dataframe" where
  "select_eq df c v =
     (case index_of c (columns df) of
        None \<Rightarrow> Inl (KeyError c)
      | Some i \<Rightarrow> Inr (df\<lparr>rows := filter (\<lambda>r. cell_at r i = Str v) (rows df)\<rparr>))"

text \<open>\<^verbatim>\<open>df.columns.to_list()\<close> as a row of cells, and \<^verbatim>\<open>df.values.tolist()\<close>.\<close>

definition header_row :: "dataframe \<Rightarrow> cell list" where
  "header_row df = map Str (columns df)"

subsection \<open>Python floats: \<^verbatim>\<open>float(s)\<close> and comparison\<close>

text \<open>
  \<^verbatim>\<open>str.strip()\<close> removes leading and trailing whitespace; \<^verbatim>\<open>float\<close> does the same to
  its argument.  Strings are byte strings here, so the characters are ASCII: the
  whitespace and decimal digits that Unicode has beyond ASCII are outside the model.
\<close>

definition is_space :: "char \<Rightarrow> bool" where
  "is_space c \<longleftrightarrow>
     c = CHR '' '' \<or> (9 \<le> (of_char c :: nat) \<and> (of_char c :: nat) \<le> 13)
     \<or> (28 \<le> (of_char c :: nat) \<and> (of_char c :: nat) \<le> 31)"

definition strip :: "string \<Rightarrow> string" where
  "strip s = rev (dropWhile is_space (rev (dropWhile is_space s)))"

definition is_digit :: "char \<Rightarrow> bool" where
  "is_digit c \<longleftrightarrow> 48 \<le> (of_char c :: nat) \<and> (of_char c :: nat) \<le> 57"

definition digit_val :: "char \<Rightarrow> nat" where
  "digit_val c = of_char c - 48"

definition nat_of_digits :: "string \<Rightarrow> nat" where
  "nat_of_digits ds = foldl (\<lambda>n c. 10 * n + digit_val c) 0 ds"

definition rat_of_digits :: "string \<Rightarrow> rat" where
  "rat_of_digits ds = foldl (\<lambda>q c. 10 * q + of_nat (digit_val c)) 0 ds"

text \<open>
  An underscore may stand between two digits only; the number is read from the string
  without its underscores.  \<open>prev\<close> is the character before, as in CPython's loop.
\<close>

fun remove_underscores :: "char option \<Rightarrow> string \<Rightarrow> string option" where
  "remove_underscores prev [] = (if prev = Some CHR ''_'' then None else Some [])"
| "remove_underscores prev (c # cs) =
     (if c = CHR ''_'' then
        (case prev of
           Some p \<Rightarrow> (if is_digit p then remove_underscores (Some c) cs else None)
         | None \<Rightarrow> None)
      else if prev = Some CHR ''_'' \<and> \<not> is_digit c then None
      else map_option ((#) c) (remove_underscores (Some c) cs))"

definition lower :: "char \<Rightarrow> char" where
  "lower c = (if 65 \<le> (of_char c :: nat) \<and> (of_char c :: nat) \<le> 90
              then char_of ((of_char c :: nat) + 32) else c)"

text \<open>
  The double nearest to a rational: zero when the magnitude is at most half the least
  subnormal, an infinity when it reaches the midpoint above the greatest double, and
  otherwise a finite value, which the model keeps exact.
\<close>

definition round_double :: "rat \<Rightarrow> pyfloat" where
  "round_double q =
     (if \<bar>q\<bar> \<le> 1 / 2 ^ 1075 then Fin 0
      else if 2 ^ 1024 - 2 ^ 970 \<le> \<bar>q\<bar> then (if 0 < q then PInf else NInf)
      else Fin q)"

text \<open>The exponent part after the mantissa: nothing, or e/E, an optional sign, digits.\<close>

definition parse_exponent :: "string \<Rightarrow> int option" where
  "parse_exponent s =
     (case s of
        [] \<Rightarrow> Some 0
      | c # r \<Rightarrow>
          (if c = CHR ''e'' \<or> c = CHR ''E'' then
             (let neg = (r \<noteq> [] \<and> hd r = CHR ''-'');
                  ds = (if r \<noteq> [] \<and> (hd r = CHR ''-'' \<or> hd r = CHR ''+'') then tl r else r)
              in if ds \<noteq> [] \<and> list_all is_digit ds
                 then Some (if neg then - int (nat_of_digits ds) else int (nat_of_digits ds))
                 else None)
           else None))"

definition parse_number :: "string \<Rightarrow> rat option" where
  "parse_number s =
     (let ipart = takeWhile is_digit s;
          r1 = dropWhile is_digit s;
          fpart = (if r1 \<noteq> [] \<and> hd r1 = CHR ''.'' then takeWhile is_digit (tl r1) else []);
          r2 = (if r1 \<noteq> [] \<and> hd r1 = CHR ''.'' then dropWhile is_digit (tl r1) else r1)
      in if ipart @ fpart = [] then None
         else (case parse_exponent r2 of
                 None \<Rightarrow> None
               | Some e \<Rightarrow>
                   Some (rat_of_digits (ipart @ fpart)
                         * (if 0 \<le> e then 10 ^ nat e else 1 / 10 ^ nat (- e))
                         / 10 ^ length fpart)))"

text \<open>\<^verbatim>\<open>float(s)\<close>: \<open>None\<close> is the ValueError.\<close>

definition py_float :: "string \<Rightarrow> pyfloat option" where
  "py_float s =
     (case remove_underscores None (strip s) of
        None \<Rightarrow> None
      | Some t \<Rightarrow>
          (let neg = (t \<noteq> [] \<and> hd t = CHR ''-'');
               u = (if t \<noteq> [] \<and> (hd t = CHR ''-'' \<or> hd t = CHR ''+'') then tl t else t);
               l = map lower u
           in if l = ''inf'' \<or> l = ''infinity'' then Some (if neg then NInf else PInf)
              else if l = ''nan'' then Some NaN
              else (case parse_number u of
                      None \<Rightarrow> None
                    | Some q \<Rightarrow> Some (round_double (if neg then - q else q)))))"

text \<open>\<^verbatim>\<open>a <= b\<close> on floats: false whenever an operand is NaN.\<close>

fun float_le :: "pyfloat \<Rightarrow> pyfloat \<Rightarrow> bool" where
  "float_le NaN _ = False"
| "float_le _ NaN = False"
| "float_le NInf _ = True"
| "float_le _ PInf = True"
| "float_le (Fin a) (Fin b) = (a \<le> b)"
| "float_le _ _ = False"

text \<open>\<^verbatim>\<open>a > b\<close> on floats; used in statements only.\<close>

definition float_gt :: "pyfloat \<Rightarrow> pyfloat \<Rightarrow> bool" where
  "float_gt a b \<longleftrightarrow> a \<noteq> NaN \<and> b \<noteq> NaN \<and> \<not> float_le a b"

subsection \<open>Timestamps\<close>

text \<open>
  \<^verbatim>\<open>datetime.now().strftime("%Y-%m-%d %H:%M:%S")\<close>: the clock's reading is an input,
  year, month, day, hour, minute, second; years have four digits.
\<close>

type_synonym datetime = "nat \<times> nat \<times> nat \<times> nat \<times> nat \<times> nat"

definition digit_char :: "nat \<Rightarrow> char" where
  "digit_char n = char_of (48 + n mod 10)"

definition pad2 :: "nat \<Rightarrow> string" where
  "pad2 n = [digit_char (n div 10), digit_char n]"

definition pad4 :: "nat \<Rightarrow> string" where
  "pad4 n = [digit_char (n div 1000), digit_char (n div 100), digit_char (n div 10), digit_char n]"

fun strftime :: "datetime \<Rightarrow> string" where
  "strftime (y, mo, d, h, mi, s) =
     pad4 y @ ''-'' @ pad2 mo @ ''-'' @ pad2 d @ '' '' @ pad2 h @ '':'' @ pad2 mi @ '':'' @ pad2 s"

subsection \<open>Writing and concatenating\<close>

text \<open>Labels re-aligned: the cells of a row under new labels, missing ones NaN.\<close>

definition reindex :: "string list \<Rightarrow> string list \<Rightarrow> cell list \<Rightarrow> cell list" where
  "reindex old new r =
     map (\<lambda>c. case index_of c old of Some i \<Rightarrow> cell_at r i | None \<Rightarrow> Num NaN) new"

text \<open>\<^verbatim>\<open>pd.concat([a, b], ignore_index=True)\<close>: the union of the labels, those of \<open>a\<close> first;
  the rows of \<open>a\<close>, then those of \<open>b\<close>.\<close>

definition concat_frames :: "dataframe \<Rightarrow> dataframe \<Rightarrow> dataframe" where
  "concat_frames a b =
     (let cols = columns a @ filter (\<lambda>c. c \<notin> set (columns a)) (columns b)
      in \<lparr>columns = cols,
          rows = map (reindex (columns a) cols) (rows a) @ map (reindex (columns b) cols) (rows b)\<rparr>)"

text \<open>\<^verbatim>\<open>df.to_csv(CSV_FILE, index=False, mode='a', header=is_new_file)\<close>: the file's
  records are kept and the frame's are put after them.\<close>

definition to_csv_append :: "cell list list option \<Rightarrow> dataframe \<Rightarrow> bool \<Rightarrow> cell list list" where
  "to_csv_append file df header =
     (case file of None \<Rightarrow> [] | Some content \<Rightarrow> content)
     @ (if header then [header_row df] else []) @ rows df"

subsection \<open>Dates: \<^verbatim>\<open>pd.to_datetime\<close> and \<^verbatim>\<open>dt.to_period('M')\<close>\<close>

text \<open>
  Two layouts of a date string are modelled: \<^verbatim>\<open>YYYY-MM-DD HH:MM:SS\<close>, which the program
  writes, and \<^verbatim>\<open>YYYY-MM-DD\<close>.  On any other string the model raises ValueError, as pandas
  does on a string it cannot read as a date (pandas reads more layouts than these two).
  A timestamp lies in a calendar month, within the day, and within the range of pandas'
  nanosecond timestamps.
\<close>

definition days_in_month :: "nat \<Rightarrow> nat \<Rightarrow> nat" where
  "days_in_month y m =
     (if m = 2 then (if y mod 4 = 0 \<and> (y mod 100 \<noteq> 0 \<or> y mod 400 = 0) then 29 else 28)
      else if m = 4 \<or> m = 6 \<or> m = 9 \<or> m = 11 then 30 else 31)"

definition valid_datetime :: "datetime \<Rightarrow> bool" where
  "valid_datetime t =
     (case t of (y, mo, d, h, mi, s) \<Rightarrow>
        1 \<le> mo \<and> mo \<le> 12 \<and> 1 \<le> d \<and> d \<le> days_in_month y mo \<and> h < 24 \<and> mi < 60 \<and> s < 60
        \<and> (1677, 9, 21, 0, 12, 44) \<le> t \<and> t \<le> (2262, 4, 11, 23, 47, 16))"

definition parse_time :: "string \<Rightarrow> (nat \<times> nat \<times> nat) option" where
  "parse_time r =
     (if r = [] then Some (0, 0, 0)
      else if length r = 9 \<and> r ! 0 = CHR '' '' \<and> r ! 3 = CHR '':'' \<and> r ! 6 = CHR '':''
              \<and> list_all is_digit (take 2 (drop 1 r) @ take 2 (drop 4 r) @ take 2 (drop 7 r))
      then Some (nat_of_digits (take 2 (drop 1 r)), nat_of_digits (take 2 (drop 4 r)),
                 nat_of_digits (take 2 (drop 7 r)))
      else None)"

definition parse_datetime :: "string \<Rightarrow> datetime option" where
  "parse_datetime s =
     (if 10 \<le> length s \<and> s ! 4 = CHR ''-'' \<and> s ! 7 = CHR ''-''
         \<and> list_all is_digit (take 4 s @ take 2 (drop 5 s) @ take 2 (drop 8 s))
      then (case parse_time (drop 10 s) of
              None \<Rightarrow> None
            | Some (h, mi, sec) \<Rightarrow>
                (let t = (nat_of_digits (take 4 s), nat_of_digits (take 2 (drop 5 s)),
                          nat_of_digits (take 2 (drop 8 s)), h, mi, sec)
                 in if valid_datetime t then Some t else None))
      else None)"

text \<open>One cell under \<^verbatim>\<open>pd.to_datetime\<close>: a string is parsed, a timestamp stays, a missing
  value stays missing.  The program writes nothing else into the date column; on any
  other cell the model raises.\<close>

fun to_datetime_cell :: "cell \<Rightarrow> error + cell" where
  "to_datetime_cell (Str s) =
     (case parse_datetime s of
        None \<Rightarrow> Inl ValueError
      | Some (y, mo, d, h, mi, sec) \<Rightarrow> Inr (Timestamp y mo d h mi sec))"
| "to_datetime_cell (Timestamp y mo d h mi sec) = Inr (Timestamp y mo d h mi sec)"
| "to_datetime_cell (Num NaN) = Inr (Num NaN)"
| "to_datetime_cell _ = Inl TypeError"

fun to_datetime :: "cell list \<Rightarrow> error + cell list" where
  "to_datetime [] = Inr []"
| "to_datetime (c # cs) =
     (case to_datetime_cell c of
        Inl e \<Rightarrow> Inl e
      | Inr t \<Rightarrow> (case to_datetime cs of Inl e \<Rightarrow> Inl e | Inr ts \<Rightarrow> Inr (t # ts)))"

fun to_period_M :: "cell \<Rightarrow> cell" where
  "to_period_M (Timestamp y mo d h mi sec) = Period y mo"
| "to_period_M c = Num NaN"

subsection \<open>Columns\<close>

text \<open>\<^verbatim>\<open>df[c]\<close>: the cells of a column, or KeyError.\<close>

definition get_column :: "dataframe \<Rightarrow> string \<Rightarrow> error + cell list" where
  "get_column df c =
     (case index_of c (columns df) of
        None \<Rightarrow> Inl (KeyError c)
      | Some i \<Rightarrow> Inr (map (\<lambda>r. cell_at r i) (rows df)))"

text \<open>\<^verbatim>\<open>df[c] = values\<close>, in place: an existing column is overwritten, a new one is put
  last.  The values are as many as the rows.\<close>

definition set_column :: "dataframe \<Rightarrow> string \<Rightarrow> cell list \<Rightarrow> dataframe" where
  "set_column df c vs =
     (case index_of c (columns df) of
        Some i \<Rightarrow> df\<lparr>rows := map (\<lambda>(r, v). r[i := v]) (zip (rows df) vs)\<rparr>
      | None \<Rightarrow> \<lparr>columns = columns df @ [c], rows = map (\<lambda>(r, v). r @ [v]) (zip (rows df) vs)\<rparr>)"

subsection \<open>Sums by group\<close>

text \<open>Float addition, and the sum pandas takes of a group: missing values are skipped,
  the sum of nothing is zero.\<close>

fun py_add :: "pyfloat \<Rightarrow> pyfloat \<Rightarrow> pyfloat" where
  "py_add NaN _ = NaN"
| "py_add _ NaN = NaN"
| "py_add (Fin a) (Fin b) = Fin (a + b)"
| "py_add PInf NInf = NaN"
| "py_add NInf PInf = NaN"
| "py_add PInf _ = PInf"
| "py_add _ PInf = PInf"
| "py_add NInf _ = NInf"
| "py_add _ NInf = NInf"

definition py_sum :: "pyfloat list \<Rightarrow> pyfloat" where
  "py_sum xs = foldl py_add (Fin 0) (filter (\<lambda>x. x \<noteq> NaN) xs)"

text \<open>The amount of a row as a float; the columns the sums are taken of hold numbers.\<close>

definition is_number :: "cell \<Rightarrow> bool" where
  "is_number c = (case c of Num a \<Rightarrow> True | _ \<Rightarrow> False)"

definition num_of :: "cell \<Rightarrow> pyfloat" where
  "num_of c = (case c of Num a \<Rightarrow> a | _ \<Rightarrow> NaN)"

text \<open>A grouping key that is a string; a missing key (NaN) drops the row from every
  group; the program writes no other kind of cell into a key column.\<close>

definition is_str :: "cell \<Rightarrow> bool" where
  "is_str c = (case c of Str s \<Rightarrow> True | _ \<Rightarrow> False)"

definition str_keys :: "cell list \<Rightarrow> string list" where
  "str_keys cs = concat (map (\<lambda>c. case c of Str s \<Rightarrow> [s] | _ \<Rightarrow> []) cs)"

definition period_keys :: "cell list \<Rightarrow> (nat \<times> nat) list" where
  "period_keys cs = concat (map (\<lambda>c. case c of Period y m \<Rightarrow> [(y, m)] | _ \<Rightarrow> []) cs)"

definition key_ok :: "cell \<Rightarrow> bool" where
  "key_ok c \<longleftrightarrow> is_str c \<or> c = Num NaN"

text \<open>
  \<^verbatim>\<open>data[data['type'] == 'Expense'].groupby('category')['amount'].sum()\<close>: one entry per
  category among the selected rows, the categories in ascending order.
\<close>

definition expense_by_category :: "dataframe \<Rightarrow> error + (string \<times> pyfloat) list" where
  "expense_by_category df =
     (case index_of ''type'' (columns df) of
        None \<Rightarrow> Inl (KeyError ''type'')
      | Some ti \<Rightarrow>
     (case index_of ''category'' (columns df) of
        None \<Rightarrow> Inl (KeyError ''category'')
      | Some ci \<Rightarrow>
     (case index_of ''amount'' (columns df) of
        None \<Rightarrow> Inl (KeyError ''amount'')
      | Some ai \<Rightarrow>
          (let expenses = filter (\<lambda>r. cell_at r ti = Str ''Expense'') (rows df)
           in if list_all (\<lambda>r. key_ok (cell_at r ci) \<and> is_number (cell_at r ai)) expenses
              then Inr (map (\<lambda>k. (k, py_sum (map (\<lambda>r. num_of (cell_at r ai))
                                             (filter (\<lambda>r. cell_at r ci = Str k) expenses))))
                            (sort (remdups (str_keys (map (\<lambda>r. cell_at r ci) expenses)))))
              else Inl TypeError))))"

text \<open>
  \<^verbatim>\<open>data.groupby(['month', 'type'])['amount'].sum().unstack(fill_value=0)\<close>: the types
  that occur become the columns, the months that occur the index, both ascending; a pair
  of month and type that has no row is filled with zero.  A row whose month or type is
  missing belongs to no group.
\<close>

definition monthly_summary ::
  "dataframe \<Rightarrow> error + (string list \<times> ((nat \<times> nat) \<times> pyfloat list) list)" where
  "monthly_summary df =
     (case index_of ''month'' (columns df) of
        None \<Rightarrow> Inl (KeyError ''month'')
      | Some mi \<Rightarrow>
     (case index_of ''type'' (columns df) of
        None \<Rightarrow> Inl (KeyError ''type'')
      | Some ti \<Rightarrow>
     (case index_of ''amount'' (columns df) of
        None \<Rightarrow> Inl (KeyError ''amount'')
      | Some ai \<Rightarrow>
          (let grouped = filter (\<lambda>r. cell_at r mi \<noteq> Num NaN \<and> cell_at r ti \<noteq> Num NaN) (rows df)
           in if list_all (\<lambda>r. is_str (cell_at r ti) \<and> is_number (cell_at r ai)) grouped
              then
                (let months = sort (remdups (period_keys (map (\<lambda>r. cell_at r mi) grouped)));
                     types = sort (remdups (str_keys (map (\<lambda>r. cell_at r ti) grouped)))
                 in Inr (types,
                      map (\<lambda>m. (m, map (\<lambda>t.
                              (let grp = filter (\<lambda>r. cell_at r mi = Period (fst m) (snd m)
                                                      \<and> cell_at r ti = Str t) grouped
                               in if grp = [] then Fin 0
                                  else py_sum (map (\<lambda>r. num_of (cell_at r ai)) grp))) types))
                          months))
              else Inl TypeError))))"

section \<open>Application state\<close>

text \<open>What the window shows in the dashboard's plot frame.\<close>

datatype widget =
    Label string
  | PieChart "(string \<times> pyfloat) list"
  | BarChart "string list" "((nat \<times> nat) \<times> pyfloat list) list"

text \<open>A call of \<^verbatim>\<open>messagebox.showerror\<close> or \<^verbatim>\<open>messagebox.showinfo\<close>: title and text.
  Where the program appends the message of a caught exception to the text, the model
  keeps the fixed part of the text only.\<close>

datatype dialog = ShowError string string | ShowInfo string string

text \<open>
  The outcome of the library call that writes a file: done, the library is not installed
  (ImportError), or another exception.
\<close>

datatype io_outcome = IoOk | IoImportError | IoFailed

text \<open>
  \<open>csv_file\<close> is the file \<^verbatim>\<open>finance_tracker.csv\<close>: \<open>None\<close> while it does not exist, else its
  records in order (one list of cells per line; the textual encoding of a cell is not
  modelled).  \<open>written\<close> lists the files the exports wrote, the latest first.
\<close>

record app =
  csv_file :: "cell list list option"
  data :: dataframe
  record_type :: string
  category_var :: string
  category_values :: "string list"
  amount_entry :: string
  description_entry :: string
  filter_type_var :: string
  filter_category_var :: string
  treeview :: "cell list list"
  plot_frame :: "widget list"
  dialogs :: "dialog list"
  written :: "(string \<times> cell list list) list"

subsection \<open>Loading\<close>

text \<open>
  \<^verbatim>\<open>load_data\<close>.  \<^verbatim>\<open>pd.read_csv\<close> is library code with its own type inference; it is the
  parameter \<open>read_csv\<close>.
\<close>

definition load_data ::
  "(cell list list \<Rightarrow> error + dataframe) \<Rightarrow> cell list list option \<Rightarrow> error + dataframe" where
  "load_data read_csv file =
     (case file of
        Some content \<Rightarrow> read_csv content
      | None \<Rightarrow> Inr (DataFrame_empty COLUMNS))"

subsection \<open>Entry form\<close>

text \<open>\<^verbatim>\<open>update_categories\<close>: the dropdown's values follow the selected type, and the
  selection is cleared.\<close>

definition update_categories :: "app \<Rightarrow> app" where
  "update_categories st =
     (let current_type = record_type st
      in st\<lparr>category_values := CATEGORIES_get current_type, category_var := []\<rparr>)"

text \<open>
  \<^verbatim>\<open>save_record\<close>.  \<open>now\<close> is the clock's reading and \<open>io\<close> the outcome of the write to
  the CSV file; whatever is raised inside the \<^verbatim>\<open>try\<close> ends in the File Error dialog.
\<close>

definition save_record :: "datetime \<Rightarrow> io_outcome \<Rightarrow> app \<Rightarrow> app" where
  "save_record now io st =
     (let record_date = strftime now;
          record_type = record_type st;
          category = category_var st;
          amount_str = strip (amount_entry st);
          description = strip (description_entry st)
      in if category = [] then
           st\<lparr>dialogs := dialogs st @ [ShowError ''Validation Error'' ''Please select a category.'']\<rparr>
         else
           (case py_float amount_str of
              None \<Rightarrow>
                st\<lparr>dialogs := dialogs st @
                      [ShowError ''Validation Error'' ''Amount must be a valid number.'']\<rparr>
            | Some amount \<Rightarrow>
                if float_le amount (Fin 0) then
                  st\<lparr>dialogs := dialogs st @
                        [ShowError ''Validation Error'' ''Amount must be a positive number.'']\<rparr>
                else
                  (let new_df = \<lparr>columns = COLUMNS,
                                 rows = [[Str record_date, Str record_type, Str category,
                                          Num amount, Str description]]\<rparr>
                   in case io of
                        IoOk \<Rightarrow>
                          (let is_new_file = (csv_file st = None)
                           in st\<lparr>csv_file := Some (to_csv_append (csv_file st) new_df is_new_file),
                                 dialogs := dialogs st @
                                   [ShowInfo ''Success'' ''Record saved successfully!''],
                                 data := concat_frames (data st) new_df,
                                 amount_entry := [],
                                 description_entry := [],
                                 category_var := []\<rparr>)
                      | _ \<Rightarrow>
                          st\<lparr>dialogs := dialogs st @
                                [ShowError ''File Error''
                                   ''An error occurred while saving the file'']\<rparr>)))"

text \<open>
  One use of the form: a type is selected, the category and the two texts are entered,
  then Save Record is pressed.
\<close>

record save_input =
  si_now :: datetime
  si_io :: io_outcome
  si_type :: string
  si_category :: string
  si_amount :: string
  si_description :: string

definition submit :: "save_input \<Rightarrow> app \<Rightarrow> app" where
  "submit i st =
     save_record (si_now i) (si_io i)
       ((update_categories (st\<lparr>record_type := si_type i\<rparr>))
          \<lparr>category_var := si_category i, amount_entry := si_amount i,
           description_entry := si_description i\<rparr>)"

fun submit_all :: "save_input list \<Rightarrow> app \<Rightarrow> app" where
  "submit_all [] st = st"
| "submit_all (i # is) st = submit_all is (submit i st)"

text \<open>The inputs the specification calls valid: a category, and an amount that reads
  as a number greater than zero.\<close>

definition valid_input :: "save_input \<Rightarrow> bool" where
  "valid_input i \<longleftrightarrow>
     si_category i \<noteq> [] \<and>
     (case py_float (strip (si_amount i)) of None \<Rightarrow> False | Some a \<Rightarrow> float_gt a (Fin 0))"

text \<open>The row a valid input stands for.\<close>

definition saved_row :: "save_input \<Rightarrow> cell list" where
  "saved_row i =
     [Str (strftime (si_now i)), Str (si_type i), Str (si_category i),
      Num (case py_float (strip (si_amount i)) of Some a \<Rightarrow> a | None \<Rightarrow> NaN),
      Str (strip (si_description i))]"

text \<open>The records of the persisted file after its header line.\<close>

definition csv_rows :: "cell list list option \<Rightarrow> cell list list" where
  "csv_rows file = (case file of None \<Rightarrow> [] | Some content \<Rightarrow> tl content)"

subsection \<open>History view\<close>

text \<open>\<^verbatim>\<open>load_history_data(filtered_df=None)\<close>: the tree view is emptied and refilled.\<close>

definition load_history_data :: "dataframe option \<Rightarrow> app \<Rightarrow> app" where
  "load_history_data filtered_df st =
     (let df_to_display = (case filtered_df of Some d \<Rightarrow> d | None \<Rightarrow> data st)
      in st\<lparr>treeview := (if \<not> df_empty df_to_display then rows df_to_display else [])\<rparr>)"

text \<open>\<^verbatim>\<open>apply_filter\<close>.  It has no handler: a KeyError leaves the method, and the state is
  as before the call.\<close>

definition apply_filter :: "app \<Rightarrow> error + app" where
  "apply_filter st =
     (let filtered_data = data st;
          filter_type = filter_type_var st
      in case (if filter_type \<noteq> ''All'' then select_eq filtered_data ''type'' filter_type
               else Inr filtered_data) of
           Inl e \<Rightarrow> Inl e
         | Inr filtered_data1 \<Rightarrow>
             (let filter_category = filter_category_var st
              in case (if filter_category \<noteq> ''All''
                       then select_eq filtered_data1 ''category'' filter_category
                       else Inr filtered_data1) of
                   Inl e \<Rightarrow> Inl e
                 | Inr filtered_data2 \<Rightarrow> Inr (load_history_data (Some filtered_data2) st)))"

subsection \<open>Dashboard\<close>

text \<open>
  \<^verbatim>\<open>create_dashboard_plots\<close>, in its three parts.  A chart in the plot frame stands for
  the call that draws it, with the data handed to matplotlib; the drawing is the
  library's.  The dialogs' texts end in the exception's message, which is left out.

  The first \<^verbatim>\<open>try\<close> block: the pie chart.
\<close>

definition pie_chart :: "app \<Rightarrow> app" where
  "pie_chart st =
     (case expense_by_category (data st) of
        Inl e \<Rightarrow> st\<lparr>dialogs := dialogs st @ [ShowError ''Plot Error'' ''Error generating pie chart'']\<rparr>
      | Inr expense_data \<Rightarrow>
          (if expense_data \<noteq> [] then st\<lparr>plot_frame := plot_frame st @ [PieChart expense_data]\<rparr>
           else st))"

text \<open>
  The two assignments that open the second \<^verbatim>\<open>try\<close> block,
  \<^verbatim>\<open>self.data['date'] = pd.to_datetime(self.data['date'])\<close> and
  \<^verbatim>\<open>self.data['month'] = self.data['date'].dt.to_period('M')\<close>, as the frame they leave
  in \<^verbatim>\<open>self.data\<close>; nothing is assigned when the conversion raises.
\<close>

definition add_month :: "dataframe \<Rightarrow> error + dataframe" where
  "add_month df =
     (case get_column df ''date'' of
        Inl e \<Rightarrow> Inl e
      | Inr dates \<Rightarrow>
          (case to_datetime dates of
             Inl e \<Rightarrow> Inl e
           | Inr stamps \<Rightarrow>
               Inr (set_column (set_column df ''date'' stamps) ''month''
                      (map to_period_M stamps))))"

text \<open>
  The second \<^verbatim>\<open>try\<close> block: the bar chart.  The assignments are to \<^verbatim>\<open>self.data\<close>
  itself; what they have written stays written when the grouping raises.
\<close>

definition bar_chart :: "app \<Rightarrow> app" where
  "bar_chart st =
     (case add_month (data st) of
        Inl e \<Rightarrow> st\<lparr>dialogs := dialogs st @ [ShowError ''Plot Error'' ''Error generating bar chart'']\<rparr>
      | Inr df \<Rightarrow>
          (let st2 = st\<lparr>data := df\<rparr>
           in case monthly_summary (data st2) of
                Inl e \<Rightarrow>
                  st2\<lparr>dialogs := dialogs st2 @
                         [ShowError ''Plot Error'' ''Error generating bar chart'']\<rparr>
              | Inr (types, table) \<Rightarrow>
                  (if table \<noteq> [] \<and> types \<noteq> []
                   then st2\<lparr>plot_frame := plot_frame st2 @ [BarChart types table]\<rparr>
                   else st2)))"

definition create_dashboard_plots :: "app \<Rightarrow> app" where
  "create_dashboard_plots st =
     (let st0 = st\<lparr>plot_frame := []\<rparr>
      in if df_empty (data st) then
           st0\<lparr>plot_frame := [Label ''No data to display. Please add some records first.'']\<rparr>
         else bar_chart (pie_chart st0))"

subsection \<open>Exports\<close>

text \<open>
  \<^verbatim>\<open>export_to_excel\<close>: \<open>file_path\<close> is what the save dialog returns (empty when cancelled).
  \<^verbatim>\<open>to_excel(file_path, index=False)\<close> writes the header and then the rows.
\<close>

definition export_to_excel :: "string \<Rightarrow> io_outcome \<Rightarrow> app \<Rightarrow> app" where
  "export_to_excel file_path io st =
     (if file_path \<noteq> [] then
        (case io of
           IoOk \<Rightarrow>
             st\<lparr>written := (file_path, header_row (data st) # rows (data st)) # written st,
                dialogs := dialogs st @ [ShowInfo ''Export Successful''
                                                  (''Data exported to '' @ file_path)]\<rparr>
         | IoImportError \<Rightarrow>
             st\<lparr>dialogs := dialogs st @ [ShowError ''Library Missing''
                 ''Please install the 'openpyxl' library: pip install openpyxl'']\<rparr>
         | IoFailed \<Rightarrow>
             st\<lparr>dialogs := dialogs st @ [ShowError ''Export Error''
                 ''An error occurred during Excel export'']\<rparr>)
      else st)"

text \<open>
  \<^verbatim>\<open>export_to_pdf\<close>: the import of ReportLab comes first, then the dialog.  The table given
  to the document is \<^verbatim>\<open>[columns] + values\<close>.
\<close>

definition export_to_pdf :: "string \<Rightarrow> io_outcome \<Rightarrow> app \<Rightarrow> app" where
  "export_to_pdf file_path io st =
     (case io of
        IoImportError \<Rightarrow>
          st\<lparr>dialogs := dialogs st @ [ShowError ''Library Missing''
              ''Please install the 'ReportLab' library: pip install ReportLab'']\<rparr>
      | IoFailed \<Rightarrow>
          (if file_path \<noteq> [] then
             st\<lparr>dialogs := dialogs st @ [ShowError ''Export Error''
                 ''An error occurred during PDF export'']\<rparr>
           else st)
      | IoOk \<Rightarrow>
          (if file_path \<noteq> [] then
             (let data_list = [header_row (data st)] @ rows (data st)
              in st\<lparr>written := (file_path, data_list) # written st,
                    dialogs := dialogs st @ [ShowInfo ''Export Successful''
                                                      (''Data exported to '' @ file_path)]\<rparr>)
           else st))"

subsection \<open>Events\<close>

text \<open>\<^verbatim>\<open>on_tab_change\<close>, by the text of the selected tab.\<close>

definition on_tab_change :: "string \<Rightarrow> app \<Rightarrow> app" where
  "on_tab_change current_tab st =
     (if current_tab = ''History'' then load_history_data None st
      else if current_tab = ''Dashboard'' then create_dashboard_plots st
      else st)"

text \<open>
  What the user can do.  The two radio buttons carry the values Expense and Income and
  call \<^verbatim>\<open>update_categories\<close>; the three dropdowns are read-only, so a choice is one of
  their values, given by its position; the entries take any text.
\<close>

datatype event =
    ClickExpense
  | ClickIncome
  | ChooseCategory nat
  | EnterAmount string
  | EnterDescription string
  | ClickSave datetime io_outcome
  | ChooseFilterType nat
  | ChooseFilterCategory nat
  | ClickApplyFilter
  | SelectTab string
  | MenuExportExcel string io_outcome
  | MenuExportPdf string io_outcome

definition filter_type_values :: "string list" where
  "filter_type_values = [''All'', ''Income'', ''Expense'']"

definition all_categories :: "string list" where
  "all_categories = [''All''] @ CATEGORIES_get ''Expense'' @ CATEGORIES_get ''Income''"

definition pick :: "string list \<Rightarrow> nat \<Rightarrow> string \<Rightarrow> string" where
  "pick vs n cur = (if n < length vs then vs ! n else cur)"

fun step :: "event \<Rightarrow> app \<Rightarrow> app" where
  "step ClickExpense st = update_categories (st\<lparr>record_type := ''Expense''\<rparr>)"
| "step ClickIncome st = update_categories (st\<lparr>record_type := ''Income''\<rparr>)"
| "step (ChooseCategory n) st = st\<lparr>category_var := pick (category_values st) n (category_var st)\<rparr>"
| "step (EnterAmount s) st = st\<lparr>amount_entry := s\<rparr>"
| "step (EnterDescription s) st = st\<lparr>description_entry := s\<rparr>"
| "step (ClickSave now io) st = save_record now io st"
| "step (ChooseFilterType n) st =
     st\<lparr>filter_type_var := pick filter_type_values n (filter_type_var st)\<rparr>"
| "step (ChooseFilterCategory n) st =
     st\<lparr>filter_category_var := pick all_categories n (filter_category_var st)\<rparr>"
| "step ClickApplyFilter st = (case apply_filter st of Inl e \<Rightarrow> st | Inr st' \<Rightarrow> st')"
| "step (SelectTab t) st = on_tab_change t st"
| "step (MenuExportExcel file_path io) st = export_to_excel file_path io st"
| "step (MenuExportPdf file_path io) st = export_to_pdf file_path io st"

fun run :: "event list \<Rightarrow> app \<Rightarrow> app" where
  "run [] st = st"
| "run (e # es) st = run es (step e st)"

subsection \<open>Start of the application\<close>

text \<open>\<^verbatim>\<open>__init__\<close> and \<^verbatim>\<open>create_widgets\<close>: the data is loaded, the widgets get their
  initial values, and the history view is filled.\<close>

definition startup ::
  "(cell list list \<Rightarrow> error + dataframe) \<Rightarrow> cell list list option \<Rightarrow> error + app" where
  "startup read_csv file =
     (case load_data read_csv file of
        Inl e \<Rightarrow> Inl e
      | Inr d \<Rightarrow>
          Inr (load_history_data None
                 (update_categories
                    \<lparr>csv_file = file, data = d, record_type = ''Expense'', category_var = [],
                     category_values = [], amount_entry = [], description_entry = [],
                     filter_type_var = ''All'', filter_category_var = ''All'',
                     treeview = [], plot_frame = [], dialogs = [], written = []\<rparr>)))"

section \<open>Example states\<close>

text \<open>The window right after its start with no persisted file.\<close>

definition fresh :: app where
  "fresh = \<lparr>csv_file = None, data = DataFrame_empty COLUMNS, record_type = ''Expense'',
            category_var = [], category_values = CATEGORIES_get ''Expense'', amount_entry = [],
            description_entry = [], filter_type_var = ''All'', filter_category_var = ''All'',
            treeview = [], plot_frame = [], dialogs = [], written = []\<rparr>"

text \<open>The data set of the specification's example: two expenses and one income.\<close>

definition example_rows :: "cell list list" where
  "example_rows =
     [[Str ''2024-01-05'', Str ''Expense'', Str ''Food'', Num (Fin 20), Str []],
      [Str ''2024-01-10'', Str ''Income'', Str ''Salary'', Num (Fin 1000), Str []],
      [Str ''2024-02-01'', Str ''Expense'', Str ''Food'', Num (Fin 30), Str []]]"

definition example_app :: app where
  "example_app = fresh\<lparr>csv_file := Some (map Str COLUMNS # example_rows),
                       data := \<lparr>columns = COLUMNS, rows = example_rows\<rparr>,
                       treeview := example_rows\<rparr>"

text \<open>Two uses of the form.\<close>

definition example_saves :: "save_input list" where
  "example_saves =
     [\<lparr>si_now = (2024, 1, 5, 9, 30, 0), si_io = IoOk, si_type = ''Expense'',
        si_category = ''Food'', si_amount = '' 20 '', si_description = ''lunch''\<rparr>,
      \<lparr>si_now = (2024, 1, 10, 18, 0, 59), si_io = IoOk, si_type = ''Income'',
        si_category = ''Salary'', si_amount = ''1_000.50'', si_description = []\<rparr>]"

text \<open>A data set of three expenses and two incomes.\<close>

definition five_rows :: "cell list list" where
  "five_rows =
     [[Str ''2024-03-01 08:00:00'', Str ''Expense'', Str ''Food'', Num (Fin 12), Str ''a''],
      [Str ''2024-03-02 08:00:00'', Str ''Income'', Str ''Salary'', Num (Fin 900), Str ''b''],
      [Str ''2024-03-03 08:00:00'', Str ''Expense'', Str ''Bills'', Num (Fin 40), Str ''c''],
      [Str ''2024-03-04 08:00:00'', Str ''Income'', Str ''Gift'', Num (Fin 25), Str ''d''],
      [Str ''2024-03-05 08:00:00'', Str ''Expense'', Str ''Food'', Num (Fin 7), Str ''e'']]"

definition five_app :: app where
  "five_app = fresh\<lparr>data := \<lparr>columns = COLUMNS, rows = five_rows\<rparr>\<rparr>"

text \<open>The form filled in with the amount text nan, by way of the widgets.\<close>

definition nan_events :: "event list" where
  "nan_events = [ChooseCategory 0, EnterAmount ''nan'', EnterDescription ''lunch'',
                 ClickSave (2024, 1, 5, 9, 30, 0) IoOk]"


text \<open>The history view of the five rows with the type filter set to Expense, before
  and after Apply Filter.\<close>

definition five_expense :: app where
  "five_expense = five_app\<lparr>filter_type_var := ''Expense''\<rparr>"

definition five_expense_shown :: app where
  "five_expense_shown =
     five_expense\<lparr>treeview :=
       [[Str ''2024-03-01 08:00:00'', Str ''Expense'', Str ''Food'', Num (Fin 12), Str ''a''],
        [Str ''2024-03-03 08:00:00'', Str ''Expense'', Str ''Bills'', Num (Fin 40), Str ''c''],
        [Str ''2024-03-05 08:00:00'', Str ''Expense'', Str ''Food'', Num (Fin 7), Str ''e'']]\<rparr>"

text \<open>The example data set after the two assignments of the dashboard.\<close>

definition example_month :: dataframe where
  "example_month =
     \<lparr>columns = [''date'', ''type'', ''category'', ''amount'', ''description'', ''month''],
      rows = [[Timestamp 2024 1 5 0 0 0, Str ''Expense'', Str ''Food'', Num (Fin 20), Str [],
               Period 2024 1],
              [Timestamp 2024 1 10 0 0 0, Str ''Income'', Str ''Salary'', Num (Fin 1000), Str [],
               Period 2024 1],
              [Timestamp 2024 2 1 0 0 0, Str ''Expense'', Str ''Food'', Num (Fin 30), Str [],
               Period 2024 2]]\<rparr>"

section \<open>Notions used in the statements\<close>

text \<open>
  The form is consistent: the type is one of the two the radio buttons carry, the
  dropdown offers the categories of that type, and the selected category is empty or one
  of the offered ones.
\<close>

definition form_ok :: "app \<Rightarrow> bool" where
  "form_ok st \<longleftrightarrow>
     (record_type st = ''Expense'' \<or> record_type st = ''Income'') \<and>
     category_values st = CATEGORIES_get (record_type st) \<and>
     (category_var st = [] \<or> category_var st \<in> set (CATEGORIES_get (record_type st)))"






section \<open>Loading without a persisted file\<close>

text \<open>
  C8.  When the persisted file does not exist, \<open>load_data\<close> returns normally, whatever the
  CSV reader would do, and the DataFrame it returns has no rows and exactly the columns
  date, type, category, amount, description.
\<close>

theorem load_data_absent:
  "load_data read_csv None =
     Inr \<lparr>columns = [''date'', ''type'', ''category'', ''amount'', ''description''], rows = []\<rparr>"
  by (simp add: load_data_def DataFrame_empty_def COLUMNS_def)

text \<open>So the application starts, and \<open>fresh\<close> is the state it starts in.\<close>

lemma startup_absent: "startup read_csv None = Inr fresh"
  by (simp add: startup_def load_data_def load_history_data_def update_categories_def
                df_empty_def DataFrame_empty_def fresh_def Let_def)


section \<open>Saving\<close>

subsection \<open>Auxiliary facts\<close>

lemma round_double_code [code]:
  "round_double q =
     (if 1 / 1024 \<le> \<bar>q\<bar> \<and> \<bar>q\<bar> \<le> 1000000000000 then Fin q
      else if \<bar>q\<bar> \<le> 1 / 2 ^ 1075 then Fin 0
      else if 2 ^ 1024 - 2 ^ 970 \<le> \<bar>q\<bar> then (if 0 < q then PInf else NInf)
      else Fin q)"
proof -
  have small: "(1::rat) / 2 ^ 1075 < 1 / 1024"
  proof -
    have "(2::rat) ^ 10 < 2 ^ 1075" by (rule power_strict_increasing) simp_all
    then show ?thesis by (simp add: field_simps)
  qed
  have "(2::rat) ^ 40 \<le> 2 ^ 970" by (rule power_increasing) simp_all
  moreover have "(2::rat) ^ 970 * 2 \<le> 2 ^ 970 * (2 ^ 54 - 1)" by (intro mult_left_mono) simp_all
  moreover have "(2::rat) ^ 970 * (2 ^ 54 - 1) = 2 ^ 1024 - 2 ^ 970"
    by (simp add: algebra_simps flip: power_add)
  moreover have "(1000000000000::rat) < 2 ^ 40" by simp
  ultimately have large: "(1000000000000::rat) < 2 ^ 1024 - 2 ^ 970" by linarith
  show ?thesis using small large by (auto simp: round_double_def)
qed

lemma float_gt_not_le: "float_gt a (Fin 0) \<Longrightarrow> \<not> float_le a (Fin 0)"
  by (simp add: float_gt_def)

lemma index_of_mem: "c \<in> set xs \<Longrightarrow> \<exists>i. index_of c xs = Some i"
  by (induction xs) auto

lemma index_of_lt: "index_of c xs = Some i \<Longrightarrow> i < length xs \<and> xs ! i = c"
  by (induction xs arbitrary: i) (auto split: if_splits option.splits)

lemma index_of_None: "index_of c xs = None \<longleftrightarrow> c \<notin> set xs"
  by (induction xs) (auto split: option.splits)

lemma reindex_COLUMNS: "length r = 5 \<Longrightarrow> reindex COLUMNS COLUMNS r = r"
proof -
  assume "length r = 5"
  then obtain a b c d e where "r = [a, b, c, d, e]"
    by (auto simp: length_Suc_conv eval_nat_numeral)
  then show ?thesis by (simp add: reindex_def COLUMNS_def cell_at_def)
qed

lemma concat_COLUMNS:
  assumes "columns d = COLUMNS" "\<forall>r\<in>set (rows d). length r = 5" "length r' = 5"
  shows "concat_frames d \<lparr>columns = COLUMNS, rows = [r']\<rparr> = d\<lparr>rows := rows d @ [r']\<rparr>"
proof -
  have "map (reindex COLUMNS COLUMNS) (rows d) = rows d"
    using assms(2) by (intro map_idI) (simp add: reindex_COLUMNS)
  then show ?thesis using assms by (simp add: concat_frames_def reindex_COLUMNS)
qed

lemma submit_valid:
  assumes "valid_input i" "si_io i = IoOk" "columns (data st) = COLUMNS"
    "\<forall>r\<in>set (rows (data st)). length r = length COLUMNS"
  shows "submit i st =
     st\<lparr>record_type := si_type i,
        category_values := CATEGORIES_get (si_type i),
        csv_file := Some (to_csv_append (csv_file st)
                            \<lparr>columns = COLUMNS, rows = [saved_row i]\<rparr> (csv_file st = None)),
        dialogs := dialogs st @ [ShowInfo ''Success'' ''Record saved successfully!''],
        data := (data st)\<lparr>rows := rows (data st) @ [saved_row i]\<rparr>,
        amount_entry := [], description_entry := [], category_var := []\<rparr>"
proof -
  obtain a where a: "py_float (strip (si_amount i)) = Some a" "float_gt a (Fin 0)"
    using assms(1) by (auto simp: valid_input_def split: option.splits)
  have len: "length COLUMNS = 5" by (simp add: COLUMNS_def)
  have row: "saved_row i = [Str (strftime (si_now i)), Str (si_type i), Str (si_category i),
      Num a, Str (strip (si_description i))]"
    by (simp add: saved_row_def a)
  have cat: "si_category i \<noteq> []" using assms(1) by (simp add: valid_input_def)
  have "concat_frames (data st) \<lparr>columns = COLUMNS, rows = [saved_row i]\<rparr>
          = (data st)\<lparr>rows := rows (data st) @ [saved_row i]\<rparr>"
    using assms(3,4) by (intro concat_COLUMNS) (simp_all add: len row)
  then show ?thesis
    using a cat assms(2) float_gt_not_le[OF a(2)]
    by (simp add: submit_def save_record_def update_categories_def Let_def row)
qed

subsection \<open>Valid saves append\<close>

text \<open>
  C1.  A sequence of saves, each with a category and an amount that reads as a number
  greater than zero, each written to the file without an I/O failure, on a data set
  with the fixed columns: the in-memory rows after the sequence are the rows from before
  followed by one row per save in the order of the saves, and the persisted file holds
  its records from before (the header line when the file was absent) followed by the same
  rows.  So nothing that was there is altered, and from an empty data set and an absent
  file the sequence of N saves leaves exactly N rows in both.
\<close>

theorem save_sequence_append_only:
  assumes "\<forall>i\<in>set inputs. valid_input i \<and> si_io i = IoOk"
    and "columns (data st) = COLUMNS"
    and "\<forall>r\<in>set (rows (data st)). length r = length COLUMNS"
  shows "rows (data (submit_all inputs st)) = rows (data st) @ map saved_row inputs
       \<and> columns (data (submit_all inputs st)) = COLUMNS
       \<and> (inputs \<noteq> [] \<longrightarrow> csv_file (submit_all inputs st) =
             Some ((case csv_file st of None \<Rightarrow> [map Str COLUMNS] | Some content \<Rightarrow> content)
                   @ map saved_row inputs))
       \<and> (rows (data st) = [] \<and> csv_file st = None \<longrightarrow>
             length (rows (data (submit_all inputs st))) = length inputs
             \<and> csv_rows (csv_file (submit_all inputs st)) = map saved_row inputs)"
  using assms
proof (induction inputs arbitrary: st)
  case Nil
  then show ?case by (simp add: csv_rows_def)
next
  case (Cons i inputs)
  have v: "valid_input i" "si_io i = IoOk" using Cons.prems(1) by simp_all
  note s = submit_valid[OF v Cons.prems(2,3)]
  have len: "length (saved_row i) = length COLUMNS" by (simp add: saved_row_def COLUMNS_def)
  have c: "columns (data (submit i st)) = COLUMNS" using Cons.prems(2) by (simp add: s)
  have r: "\<forall>r\<in>set (rows (data (submit i st))). length r = length COLUMNS"
    using Cons.prems(3) len by (auto simp: s)
  have rest: "\<forall>i\<in>set inputs. valid_input i \<and> si_io i = IoOk" using Cons.prems(1) by simp
  have ih: "rows (data (submit_all inputs (submit i st))) =
              rows (data (submit i st)) @ map saved_row inputs"
    "columns (data (submit_all inputs (submit i st))) = COLUMNS"
    "inputs \<noteq> [] \<Longrightarrow> csv_file (submit_all inputs (submit i st)) =
       Some ((case csv_file (submit i st) of None \<Rightarrow> [map Str COLUMNS] | Some content \<Rightarrow> content)
             @ map saved_row inputs)"
    using Cons.IH[OF rest c r] by simp_all
  have f: "csv_file (submit i st) =
       Some ((case csv_file st of None \<Rightarrow> [map Str COLUMNS] | Some content \<Rightarrow> content)
             @ [saved_row i])"
    by (simp add: s to_csv_append_def header_row_def split: option.splits)
  have d: "rows (data (submit i st)) = rows (data st) @ [saved_row i]" by (simp add: s)
  have fl: "csv_file (submit_all (i # inputs) st) =
       Some ((case csv_file st of None \<Rightarrow> [map Str COLUMNS] | Some content \<Rightarrow> content)
             @ map saved_row (i # inputs))"
  proof (cases "inputs = []")
    case True
    then show ?thesis using f by simp
  next
    case False
    then show ?thesis using ih(3) f by simp
  qed
  have mem: "rows (data (submit_all (i # inputs) st)) = rows (data st) @ map saved_row (i # inputs)"
    using ih(1) d by simp
  show ?case
    using fl mem ih(2) by (simp add: csv_rows_def)
qed

theorem save_sequence_append_only_witness:
  "list_all (\<lambda>i. valid_input i \<and> si_io i = IoOk) example_saves
   \<and> rows (data (submit_all example_saves fresh)) =
       [[Str ''2024-01-05 09:30:00'', Str ''Expense'', Str ''Food'', Num (Fin 20), Str ''lunch''],
        [Str ''2024-01-10 18:00:59'', Str ''Income'', Str ''Salary'', Num (Fin (2001 / 2)), Str []]]
   \<and> csv_file (submit_all example_saves fresh) =
       Some [[Str ''date'', Str ''type'', Str ''category'', Str ''amount'', Str ''description''],
        [Str ''2024-01-05 09:30:00'', Str ''Expense'', Str ''Food'', Num (Fin 20), Str ''lunch''],
        [Str ''2024-01-10 18:00:59'', Str ''Income'', Str ''Salary'', Num (Fin (2001 / 2)), Str []]]
   \<and> length (rows (data (submit_all example_saves fresh))) = 2"
proof -
  have v: "list_all (\<lambda>i. valid_input i \<and> si_io i = IoOk) example_saves"
    by code_simp
  then have h: "\<forall>i\<in>set example_saves. valid_input i \<and> si_io i = IoOk"
    by (simp add: list_all_iff)
  have c: "columns (data fresh) = COLUMNS" and e: "rows (data fresh) = []"
    and n: "csv_file fresh = None"
    by (simp_all add: fresh_def DataFrame_empty_def)
  have r: "\<forall>r\<in>set (rows (data fresh)). length r = length COLUMNS"
    by (simp add: e)
  have m: "map saved_row example_saves =
       [[Str ''2024-01-05 09:30:00'', Str ''Expense'', Str ''Food'', Num (Fin 20), Str ''lunch''],
        [Str ''2024-01-10 18:00:59'', Str ''Income'', Str ''Salary'', Num (Fin (2001 / 2)), Str []]]"
    by code_simp
  have ne: "example_saves \<noteq> []" by (simp add: example_saves_def)
  show ?thesis
    using save_sequence_append_only[OF h c r] v m ne
    by (simp add: e n COLUMNS_def)
qed


subsection \<open>Invalid input is rejected\<close>




section \<open>History view\<close>

lemma field_index: "index_of c (columns d) = Some i \<Longrightarrow> field d c r = cell_at r i"
  by (simp add: field_def)

lemma apply_filter_Inr: "apply_filter st = Inr st' \<Longrightarrow> \<exists>tv. st' = st\<lparr>treeview := tv\<rparr>"
  by (auto simp: apply_filter_def load_history_data_def Let_def split: sum.splits if_splits)

lemma apply_filter_treeview:
  "apply_filter (st\<lparr>treeview := tv\<rparr>) =
     (case apply_filter st of Inl e \<Rightarrow> Inl e | Inr s \<Rightarrow> Inr s)"
  by (auto simp: apply_filter_def load_history_data_def Let_def split: sum.splits)

text \<open>
  C5.  On a data set that has the columns type and category, Apply Filter returns
  normally, leaves the data set as it is, and shows exactly the rows that pass both
  tests, in the order of the data set: a filter value of All passes every row, any other
  value passes the rows whose cell in that column is that string.
\<close>

theorem apply_filter_keeps_matching_rows:
  assumes "''type'' \<in> set (columns (data st))" and "''category'' \<in> set (columns (data st))"
  shows "\<exists>st'. apply_filter st = Inr st' \<and> data st' = data st \<and>
           treeview st' =
             filter (\<lambda>r. (filter_type_var st = ''All'' \<or>
                           field (data st) ''type'' r = Str (filter_type_var st)) \<and>
                         (filter_category_var st = ''All'' \<or>
                           field (data st) ''category'' r = Str (filter_category_var st)))
                    (rows (data st)) \<and>
           subseq (treeview st') (rows (data st))"
proof -
  obtain ti ci where ti: "index_of ''type'' (columns (data st)) = Some ti"
    and ci: "index_of ''category'' (columns (data st)) = Some ci"
    using assms index_of_mem by blast
  have ne: "columns (data st) \<noteq> []" using assms(1) by auto
  let ?P = "\<lambda>r. (filter_type_var st = ''All'' \<or> cell_at r ti = Str (filter_type_var st)) \<and>
                 (filter_category_var st = ''All'' \<or> cell_at r ci = Str (filter_category_var st))"
  have shown: "apply_filter st = Inr (st\<lparr>treeview := filter ?P (rows (data st))\<rparr>)"
    by (simp add: apply_filter_def select_eq_def load_history_data_def df_empty_def ti ci ne Let_def)
  have "filter ?P (rows (data st)) =
        filter (\<lambda>r. (filter_type_var st = ''All'' \<or>
                           field (data st) ''type'' r = Str (filter_type_var st)) \<and>
                         (filter_category_var st = ''All'' \<or>
                           field (data st) ''category'' r = Str (filter_category_var st)))
               (rows (data st))"
    by (simp add: field_def ti ci)
  then show ?thesis using shown by (simp add: subseq_filter_left)
qed

theorem apply_filter_keeps_matching_rows_witness:
  "''type'' \<in> set (columns (data five_expense)) \<and>
   ''category'' \<in> set (columns (data five_expense)) \<and>
   length (filter (\<lambda>r. field (data five_expense) ''type'' r = Str ''Expense'')
             (rows (data five_expense))) = 3 \<and>
   length (filter (\<lambda>r. field (data five_expense) ''type'' r = Str ''Income'')
             (rows (data five_expense))) = 2 \<and>
   (\<exists>st'. apply_filter five_expense = Inr st' \<and> data st' = data five_expense \<and>
      treeview st' =
        [[Str ''2024-03-01 08:00:00'', Str ''Expense'', Str ''Food'', Num (Fin 12), Str ''a''],
         [Str ''2024-03-03 08:00:00'', Str ''Expense'', Str ''Bills'', Num (Fin 40), Str ''c''],
         [Str ''2024-03-05 08:00:00'', Str ''Expense'', Str ''Food'', Num (Fin 7), Str ''e'']])"
proof -
  have h1: "''type'' \<in> set (columns (data five_expense))"
    and h2: "''category'' \<in> set (columns (data five_expense))"
    by (simp_all add: five_expense_def five_app_def COLUMNS_def)
  have n3: "length (filter (\<lambda>r. field (data five_expense) ''type'' r = Str ''Expense'')
             (rows (data five_expense))) = 3"
    by code_simp
  have n2: "length (filter (\<lambda>r. field (data five_expense) ''type'' r = Str ''Income'')
             (rows (data five_expense))) = 2"
    by code_simp
  have v: "filter_type_var five_expense = ''Expense''" "filter_category_var five_expense = ''All''"
    by (simp_all add: five_expense_def five_app_def fresh_def)
  have e: "filter (\<lambda>r. field (data five_expense) ''type'' r = Str ''Expense'')
                    (rows (data five_expense)) =
        [[Str ''2024-03-01 08:00:00'', Str ''Expense'', Str ''Food'', Num (Fin 12), Str ''a''],
         [Str ''2024-03-03 08:00:00'', Str ''Expense'', Str ''Bills'', Num (Fin 40), Str ''c''],
         [Str ''2024-03-05 08:00:00'', Str ''Expense'', Str ''Food'', Num (Fin 7), Str ''e'']]"
    by code_simp
  from apply_filter_keeps_matching_rows[OF h1 h2]
  obtain st' where s: "apply_filter five_expense = Inr st'" "data st' = data five_expense"
    "treeview st' =
       filter (\<lambda>r. (filter_type_var five_expense = ''All'' \<or>
                     field (data five_expense) ''type'' r = Str (filter_type_var five_expense)) \<and>
                   (filter_category_var five_expense = ''All'' \<or>
                     field (data five_expense) ''category'' r
                       = Str (filter_category_var five_expense)))
              (rows (data five_expense))"
    by blast
  have "treeview st' = filter (\<lambda>r. field (data five_expense) ''type'' r = Str ''Expense'')
                    (rows (data five_expense))"
    unfolding s(3) v by simp
  then show ?thesis using h1 h2 n3 n2 s(1,2) e by simp
qed

text \<open>
  C10.  Apply Filter twice in a row is the same as once; it leaves the data set as it
  is; and after one application that returned normally, an application with any other
  pair of filter values has the outcome it would have had without the first one: the rows
  shown come from the whole data set, not from the rows shown before.
\<close>

theorem apply_filter_recomputes:
  "step ClickApplyFilter (step ClickApplyFilter st) = step ClickApplyFilter st
   \<and> data (step ClickApplyFilter st) = data st
   \<and> (apply_filter st = Inr st1 \<longrightarrow>
        apply_filter (st1\<lparr>filter_type_var := t, filter_category_var := c\<rparr>)
          = apply_filter (st\<lparr>filter_type_var := t, filter_category_var := c\<rparr>))"
proof (intro conjI impI)
  show "step ClickApplyFilter (step ClickApplyFilter st) = step ClickApplyFilter st"
  proof (cases "apply_filter st")
    case (Inl e)
    then show ?thesis by simp
  next
    case (Inr s)
    then obtain tv where "s = st\<lparr>treeview := tv\<rparr>" using apply_filter_Inr by blast
    then have "apply_filter s = Inr s" using Inr by (simp add: apply_filter_treeview)
    then show ?thesis using Inr by simp
  qed
  show "data (step ClickApplyFilter st) = data st"
    by (cases "apply_filter st") (auto dest: apply_filter_Inr)
  show "apply_filter (st1\<lparr>filter_type_var := t, filter_category_var := c\<rparr>)
          = apply_filter (st\<lparr>filter_type_var := t, filter_category_var := c\<rparr>)"
    if ok: "apply_filter st = Inr st1"
  proof -
    obtain tv where "st1 = st\<lparr>treeview := tv\<rparr>" using apply_filter_Inr[OF ok] by blast
    then have "st1\<lparr>filter_type_var := t, filter_category_var := c\<rparr>
                 = (st\<lparr>filter_type_var := t, filter_category_var := c\<rparr>)\<lparr>treeview := tv\<rparr>"
      by simp
    then show ?thesis
      by (simp only: apply_filter_treeview split: sum.splits) (simp split: sum.splits)
  qed
qed

theorem apply_filter_recomputes_witness:
  "apply_filter five_expense = Inr five_expense_shown
   \<and> step ClickApplyFilter (step ClickApplyFilter five_expense) = five_expense_shown
   \<and> apply_filter (five_expense_shown\<lparr>filter_type_var := ''All'', filter_category_var := ''Salary''\<rparr>)
       = Inr (five_app\<lparr>filter_category_var := ''Salary'',
                treeview := [[Str ''2024-03-02 08:00:00'', Str ''Income'', Str ''Salary'',
                              Num (Fin 900), Str ''b'']]\<rparr>)"
proof -
  have a: "apply_filter five_expense = Inr five_expense_shown"
    by code_simp
  have b: "apply_filter (five_expense\<lparr>filter_type_var := ''All'', filter_category_var := ''Salary''\<rparr>)
       = Inr (five_app\<lparr>filter_category_var := ''Salary'',
                treeview := [[Str ''2024-03-02 08:00:00'', Str ''Income'', Str ''Salary'',
                              Num (Fin 900), Str ''b'']]\<rparr>)"
    by code_simp
  note t = apply_filter_recomputes[where st = five_expense and ?st1.0 = five_expense_shown
      and t = "''All''" and c = "''Salary''"]
  have c: "step ClickApplyFilter five_expense = five_expense_shown" using a by simp
  show ?thesis using t a b c by simp
qed

section \<open>Exports\<close>

text \<open>
  C9.  With no rows in the data set, a path chosen in the dialog and a write that does
  not fail, each of the two exports writes one file whose table is the single row of
  the column names.
\<close>

theorem export_of_empty_dataset:
  assumes "rows (data st) = []" and "file_path \<noteq> []"
  shows "written (export_to_excel file_path IoOk st)
           = (file_path, [map Str (columns (data st))]) # written st
       \<and> written (export_to_pdf file_path IoOk st)
           = (file_path, [map Str (columns (data st))]) # written st"
  using assms by (simp add: export_to_excel_def export_to_pdf_def header_row_def Let_def)

theorem export_of_empty_dataset_witness:
  "rows (data fresh) = [] \<and>
   written (export_to_excel ''out.xlsx'' IoOk fresh) =
     [(''out.xlsx'', [[Str ''date'', Str ''type'', Str ''category'', Str ''amount'',
                      Str ''description'']])] \<and>
   written (export_to_pdf ''out.pdf'' IoOk fresh) =
     [(''out.pdf'', [[Str ''date'', Str ''type'', Str ''category'', Str ''amount'',
                     Str ''description'']])]"
proof -
  have r: "rows (data fresh) = []" and c: "columns (data fresh) = COLUMNS"
    and w: "written fresh = []"
    by (simp_all add: fresh_def DataFrame_empty_def)
  have p1: "''out.xlsx'' \<noteq> []" and p2: "''out.pdf'' \<noteq> []" by simp_all
  show ?thesis
    using export_of_empty_dataset[OF r p1] export_of_empty_dataset[OF r p2]
    by (simp add: r c w COLUMNS_def)
qed



section \<open>What changes the data set\<close>

lemma load_history_data_keeps_data: "data (load_history_data f st) = data st"
  by (simp add: load_history_data_def Let_def)

lemma apply_filter_keeps_data: "apply_filter st = Inr st' \<Longrightarrow> data st' = data st"
  by (auto dest: apply_filter_Inr)

lemma exports_keep_data:
  "data (export_to_excel file_path io st) = data st"
  "data (export_to_pdf file_path io st) = data st"
  by (simp_all add: export_to_excel_def export_to_pdf_def Let_def split: io_outcome.splits)

text \<open>
  C3.  The history view, the filter and the two exports leave the data set as it is (the
  three lemmas above).  The dashboard does not: on the specification's example data set,
  selecting the Dashboard tab replaces the date strings of \<^verbatim>\<open>self.data\<close> by timestamps
  and gives it a sixth column, month; no dialog reports anything.
\<close>

theorem dashboard_changes_data:
  "data (on_tab_change ''Dashboard'' example_app) =
     \<lparr>columns = [''date'', ''type'', ''category'', ''amount'', ''description'', ''month''],
      rows = [[Timestamp 2024 1 5 0 0 0, Str ''Expense'', Str ''Food'', Num (Fin 20), Str [],
               Period 2024 1],
              [Timestamp 2024 1 10 0 0 0, Str ''Income'', Str ''Salary'', Num (Fin 1000), Str [],
               Period 2024 1],
              [Timestamp 2024 2 1 0 0 0, Str ''Expense'', Str ''Food'', Num (Fin 30), Str [],
               Period 2024 2]]\<rparr>
   \<and> data (on_tab_change ''Dashboard'' example_app) \<noteq> data example_app
   \<and> dialogs (on_tab_change ''Dashboard'' example_app) = []"
proof -
  have e: "expense_by_category (data example_app) = Inr [(''Food'', Fin 50)]"
    by code_simp
  have a: "add_month (data example_app) = Inr example_month"
    by code_simp
  have m: "monthly_summary example_month =
        Inr ([''Expense'', ''Income''],
             [((2024, 1), [Fin 20, Fin 1000]), ((2024, 2), [Fin 30, Fin 0])])"
    by code_simp
  have ne: "\<not> df_empty (data example_app)"
    by (simp add: df_empty_def example_app_def example_rows_def COLUMNS_def)
  have d: "dialogs example_app = []"
    by (simp add: example_app_def fresh_def)
  have p: "pie_chart (example_app\<lparr>plot_frame := []\<rparr>)
             = example_app\<lparr>plot_frame := [PieChart [(''Food'', Fin 50)]]\<rparr>"
    by (simp add: pie_chart_def e)
  have b: "bar_chart (example_app\<lparr>plot_frame := [PieChart [(''Food'', Fin 50)]]\<rparr>)
             = example_app\<lparr>data := example_month,
                  plot_frame := [PieChart [(''Food'', Fin 50)],
                    BarChart [''Expense'', ''Income'']
                      [((2024, 1), [Fin 20, Fin 1000]), ((2024, 2), [Fin 30, Fin 0])]]\<rparr>"
    by (simp add: bar_chart_def a m Let_def)
  have r: "on_tab_change ''Dashboard'' example_app
             = example_app\<lparr>data := example_month,
                  plot_frame := [PieChart [(''Food'', Fin 50)],
                    BarChart [''Expense'', ''Income'']
                      [((2024, 1), [Fin 20, Fin 1000]), ((2024, 2), [Fin 30, Fin 0])]]\<rparr>"
    by (simp add: on_tab_change_def create_dashboard_plots_def ne p b Let_def)
  have x: "columns example_month \<noteq> columns (data example_app)"
    by (simp add: example_month_def example_app_def COLUMNS_def)
  then have "example_month \<noteq> data example_app" by auto
  then show ?thesis
    by (simp add: r d) (simp add: example_month_def)
qed

section \<open>The invariants of a saved record\<close>

lemma dashboard_keeps_form:
  "record_type (create_dashboard_plots st) = record_type st"
  "category_values (create_dashboard_plots st) = category_values st"
  "category_var (create_dashboard_plots st) = category_var st"
  by (auto simp: create_dashboard_plots_def pie_chart_def bar_chart_def Let_def
           split: sum.splits prod.splits)

lemma save_record_keeps_form_ok: "form_ok st \<Longrightarrow> form_ok (save_record now io st)"
  by (cases io) (auto simp: form_ok_def save_record_def Let_def split: option.splits)

lemma form_ok_step: "form_ok st \<Longrightarrow> form_ok (step e st)"
proof (cases e)
  case ClickExpense
  then show ?thesis by (simp add: form_ok_def update_categories_def)
next
  case ClickIncome
  then show ?thesis by (simp add: form_ok_def update_categories_def)
next
  case (ChooseCategory n)
  assume "form_ok st"
  then show ?thesis using ChooseCategory by (auto simp: form_ok_def pick_def)
next
  case (EnterAmount s)
  assume "form_ok st"
  then show ?thesis using EnterAmount by (auto simp: form_ok_def)
next
  case (EnterDescription s)
  assume "form_ok st"
  then show ?thesis using EnterDescription by (auto simp: form_ok_def)
next
  case (ClickSave now io)
  assume "form_ok st"
  then show ?thesis using ClickSave by (simp add: save_record_keeps_form_ok)
next
  case (ChooseFilterType n)
  assume "form_ok st"
  then show ?thesis using ChooseFilterType by (auto simp: form_ok_def)
next
  case (ChooseFilterCategory n)
  assume "form_ok st"
  then show ?thesis using ChooseFilterCategory by (auto simp: form_ok_def)
next
  case ClickApplyFilter
  assume ok: "form_ok st"
  show ?thesis
  proof (cases "apply_filter st")
    case (Inl e)
    then show ?thesis using ok ClickApplyFilter by simp
  next
    case (Inr s)
    then obtain tv where "s = st\<lparr>treeview := tv\<rparr>" using apply_filter_Inr by blast
    then show ?thesis using ok ClickApplyFilter Inr by (auto simp: form_ok_def)
  qed
next
  case (SelectTab t)
  assume "form_ok st"
  then show ?thesis using SelectTab
    by (auto simp: form_ok_def on_tab_change_def load_history_data_def Let_def dashboard_keeps_form)
next
  case (MenuExportExcel p io)
  assume "form_ok st"
  then show ?thesis using MenuExportExcel
    by (cases io) (auto simp: form_ok_def export_to_excel_def)
next
  case (MenuExportPdf p io)
  assume "form_ok st"
  then show ?thesis using MenuExportPdf
    by (cases io) (auto simp: form_ok_def export_to_pdf_def Let_def)
qed

lemma form_ok_run: "form_ok st \<Longrightarrow> form_ok (run es st)"
  by (induction es arbitrary: st) (simp_all add: form_ok_step)

lemma form_ok_fresh: "form_ok fresh"
  by (simp add: form_ok_def fresh_def)

text \<open>The category half of the invariant holds: in every state reached from the start
  through the widgets, a save that adds a row adds it with a category of the list of the
  selected type.\<close>

lemma saved_category_in_list:
  assumes "data (save_record now io (run es fresh)) \<noteq> data (run es fresh)"
  shows "category_var (run es fresh) \<in> set (CATEGORIES_get (record_type (run es fresh)))"
proof -
  have ok: "form_ok (run es fresh)" by (simp add: form_ok_run form_ok_fresh)
  have "category_var (run es fresh) \<noteq> []"
    using assms by (auto simp: save_record_def Let_def)
  then show ?thesis using ok by (auto simp: form_ok_def)
qed

text \<open>
  C4.  The amount half fails.  From the start of the application the user selects the
  first category, types nan as the amount and presses Save Record: \<open>float\<close> reads the
  text as NaN, the test \<^verbatim>\<open>amount <= 0\<close> is false on NaN, and the record is written to
  the file and to the data set with the amount NaN, which is not greater than zero.
\<close>

theorem save_record_accepts_nan:
  "py_float ''nan'' = Some NaN \<and> \<not> float_gt NaN (Fin 0) \<and>
   run nan_events fresh =
     fresh\<lparr>csv_file :=
             Some [[Str ''date'', Str ''type'', Str ''category'', Str ''amount'',
                    Str ''description''],
                   [Str ''2024-01-05 09:30:00'', Str ''Expense'', Str ''Food'', Num NaN,
                    Str ''lunch'']],
           data :=
             \<lparr>columns = [''date'', ''type'', ''category'', ''amount'', ''description''],
              rows = [[Str ''2024-01-05 09:30:00'', Str ''Expense'', Str ''Food'', Num NaN,
                       Str ''lunch'']]\<rparr>,
           dialogs := [ShowInfo ''Success'' ''Record saved successfully!'']\<rparr>"
  by code_simp



section \<open>Dashboard aggregations\<close>

lemma set_str_keys: "set (str_keys cs) = {s. Str s \<in> set cs}"
  by (induction cs) (auto simp: str_keys_def split: cell.splits)



subsection \<open>Chart A\<close>

text \<open>
  C6.  On a data set with the columns type, category and amount, whose expense rows
  have a string (or nothing) as category and a number as amount, the aggregation of
  chart A returns normally with one entry per category that has an expense row, no entry
  for any other category, and as the value of a category the sum of the amounts of the
  expense rows of that category.  With no expense row the result is empty and the pie
  chart is not drawn.
\<close>

theorem expense_by_category_sums:
  assumes "''type'' \<in> set (columns d)" and "''category'' \<in> set (columns d)"
    and "''amount'' \<in> set (columns d)"
    and "\<forall>r\<in>set (rows d). field d ''type'' r = Str ''Expense'' \<longrightarrow>
           key_ok (field d ''category'' r) \<and> is_number (field d ''amount'' r)"
  shows "\<exists>ed. expense_by_category d = Inr ed
     \<and> distinct (map fst ed) \<and> sorted (map fst ed)
     \<and> set (map fst ed) =
         {k. \<exists>r\<in>set (rows d). field d ''type'' r = Str ''Expense'' \<and> field d ''category'' r = Str k}
     \<and> (\<forall>(k, v)\<in>set ed.
           v = py_sum (map (\<lambda>r. num_of (field d ''amount'' r))
                        (filter (\<lambda>r. field d ''type'' r = Str ''Expense'' \<and>
                                      field d ''category'' r = Str k) (rows d))))
     \<and> ((\<forall>r\<in>set (rows d). field d ''type'' r \<noteq> Str ''Expense'') \<longrightarrow>
           ed = [] \<and> (\<forall>st. data st = d \<longrightarrow> plot_frame (pie_chart st) = plot_frame st))"
proof -
  obtain ti where ti: "index_of ''type'' (columns d) = Some ti"
    using index_of_mem[OF assms(1)] by (rule exE)
  obtain ci where ci: "index_of ''category'' (columns d) = Some ci"
    using index_of_mem[OF assms(2)] by (rule exE)
  obtain ai where ai: "index_of ''amount'' (columns d) = Some ai"
    using index_of_mem[OF assms(3)] by (rule exE)
  note f = field_index[OF ti] field_index[OF ci] field_index[OF ai]
  define expenses where "expenses = filter (\<lambda>r. cell_at r ti = Str ''Expense'') (rows d)"
  define keys where "keys = sort (remdups (str_keys (map (\<lambda>r. cell_at r ci) expenses)))"
  define total where "total = (\<lambda>k. py_sum (map (\<lambda>r. num_of (cell_at r ai))
                                   (filter (\<lambda>r. cell_at r ci = Str k) expenses)))"
  define ed where "ed = map (\<lambda>k. (k, total k)) keys"
  have typed: "list_all (\<lambda>r. key_ok (cell_at r ci) \<and> is_number (cell_at r ai)) expenses"
    using assms(4) by (auto simp: expenses_def list_all_iff f)
  have res: "expense_by_category d = Inr ed"
    using typed
    by (simp add: expense_by_category_def ti ci ai Let_def ed_def keys_def total_def expenses_def)
  have fst: "map fst ed = keys" by (simp add: ed_def comp_def)
  have dist: "distinct (map fst ed)" and srt: "sorted (map fst ed)"
    by (simp_all add: fst keys_def)
  have "set keys = {k. \<exists>r\<in>set expenses. cell_at r ci = Str k}"
    by (force simp: keys_def set_str_keys image_iff)
  then have keyset: "set (map fst ed) =
      {k. \<exists>r\<in>set (rows d). field d ''type'' r = Str ''Expense'' \<and> field d ''category'' r = Str k}"
    by (auto simp: fst expenses_def f)
  have tot: "total k = py_sum (map (\<lambda>r. num_of (field d ''amount'' r))
                        (filter (\<lambda>r. field d ''type'' r = Str ''Expense'' \<and>
                                      field d ''category'' r = Str k) (rows d)))" for k
    by (simp add: total_def expenses_def f)
  have vals: "\<forall>(k, v)\<in>set ed.
           v = py_sum (map (\<lambda>r. num_of (field d ''amount'' r))
                        (filter (\<lambda>r. field d ''type'' r = Str ''Expense'' \<and>
                                      field d ''category'' r = Str k) (rows d)))"
    using tot by (auto simp: ed_def)
  have none: "ed = [] \<and> (\<forall>st. data st = d \<longrightarrow> plot_frame (pie_chart st) = plot_frame st)"
    if no: "\<forall>r\<in>set (rows d). field d ''type'' r \<noteq> Str ''Expense''"
  proof -
    have "expenses = []" using no by (auto simp: expenses_def f filter_empty_conv)
    then have e: "ed = []" by (simp add: ed_def keys_def str_keys_def)
    then show ?thesis using res by (simp add: pie_chart_def)
  qed
  show ?thesis
    using res dist srt keyset vals none by blast
qed

theorem expense_by_category_sums_witness:
  "''type'' \<in> set (columns (data example_app)) \<and>
   ''category'' \<in> set (columns (data example_app)) \<and>
   ''amount'' \<in> set (columns (data example_app)) \<and>
   list_all (\<lambda>r. key_ok (field (data example_app) ''category'' r) \<and>
                 is_number (field (data example_app) ''amount'' r)) (rows (data example_app)) \<and>
   (\<exists>ed. expense_by_category (data example_app) = Inr ed \<and> ed = [(''Food'', Fin 50)] \<and>
         distinct (map fst ed)) \<and>
   plot_frame (pie_chart example_app) = [PieChart [(''Food'', Fin 50)]]"
proof -
  have h1: "''type'' \<in> set (columns (data example_app))"
    and h2: "''category'' \<in> set (columns (data example_app))"
    and h3: "''amount'' \<in> set (columns (data example_app))"
    by (simp_all add: example_app_def COLUMNS_def)
  have t: "list_all (\<lambda>r. key_ok (field (data example_app) ''category'' r) \<and>
                 is_number (field (data example_app) ''amount'' r)) (rows (data example_app))"
    by code_simp
  then have h4: "\<forall>r\<in>set (rows (data example_app)).
       field (data example_app) ''type'' r = Str ''Expense'' \<longrightarrow>
       key_ok (field (data example_app) ''category'' r) \<and> is_number (field (data example_app) ''amount'' r)"
    by (simp add: list_all_iff)
  have e: "expense_by_category (data example_app) = Inr [(''Food'', Fin 50)]"
    by code_simp
  have p: "plot_frame (pie_chart example_app) = [PieChart [(''Food'', Fin 50)]]"
    by code_simp
  from expense_by_category_sums[OF h1 h2 h3 h4]
  obtain ed where "expense_by_category (data example_app) = Inr ed" "distinct (map fst ed)"
    by blast
  then show ?thesis using h1 h2 h3 t e p by simp
qed



subsection \<open>Chart B\<close>













end
